theory Spec2Isabelle
  imports Main
begin

section \<open>Data model\<close>

text \<open>
  The two reconcilers of the plugin work on Kubernetes objects of kind
  NodeAllocationRequest and NodeReleaseRequest. An object is its metadata, its spec and its
  status. Only the metadata fields the reconcilers read or write are kept. A timestamp is a
  number of ticks after Go's zero time, so that tick 0 is the zero time.
\<close>

type_synonym Time = nat

record ObjectMeta =
  Namespace :: string
  Name :: string
  UID :: string
  DeletionTimestamp :: "Time option"
  Finalizers :: "string list"

record ('s, 't) object =
  meta :: ObjectMeta
  spec :: 's
  status :: 't

datatype ConditionStatus = ConditionTrue | ConditionFalse | ConditionUnknown

record Condition =
  Type :: string
  Status :: ConditionStatus
  ObservedGeneration :: int
  LastTransitionTime :: Time
  Reason :: string
  Message :: string

record BMC =
  Address :: string
  CredentialsName :: string

record NodeAllocationRequestSpec =
  aCloudID :: string
  aLocation :: string
  aExtensions :: "string \<rightharpoonup> string"

record NodeAllocationRequestStatus =
  NodeID :: string
  bmc :: BMC
  aConditions :: "Condition list"

record NodeReleaseRequestSpec =
  rCloudID :: string
  rNodeID :: string
  rExtensions :: "string \<rightharpoonup> string"

record NodeReleaseRequestStatus =
  rConditions :: "Condition list"

type_synonym NodeAllocationRequest = "(NodeAllocationRequestSpec, NodeAllocationRequestStatus) object"
type_synonym NodeReleaseRequest = "(NodeReleaseRequestSpec, NodeReleaseRequestStatus) object"

record OwnerReference =
  oKind :: string
  oName :: string
  oUID :: string

text \<open>
  A secret in memory carries its key. The store keeps the body of a secret under the key,
  so a fetched secret always has the name it was asked for. A nil data map and an empty one
  are both the empty map.
\<close>

record SecretBody =
  Data :: "string \<rightharpoonup> string"
  OwnerReferences :: "OwnerReference list"

record Secret =
  sNamespace :: string
  sName :: string
  sBody :: SecretBody

section \<open>The store, its client and the environment of one pass\<close>

text \<open>
  Errors are values. \<open>NotFound\<close> is the one error that \<open>apierrors.IsNotFound\<close>
  recognises.
\<close>

datatype error = NotFound | Conflict | Unavailable | Failure string

definition IsNotFound :: "error \<Rightarrow> bool" where
  "IsNotFound e = (e = NotFound)"

text \<open>
  The result handed back to the work queue: \<open>ctrl.Result\<close>, whose zero value asks for
  nothing.
\<close>

record Result =
  Requeue :: bool
  RequeueAfter :: nat

definition zeroResult :: Result where
  "zeroResult = \<lparr>Requeue = False, RequeueAfter = 0\<rparr>"

text \<open>
  The world of one object identity: the stored object (absent when the store has none) and
  the secrets of the cluster, keyed by namespace and name. Physical removal of an object
  whose finalizer list has emptied is the store's own business and is not part of a pass.
\<close>

record ('s, 't) world =
  store :: "('s, 't) object option"
  secrets :: "string \<times> string \<rightharpoonup> SecretBody"

text \<open>
  Everything a pass takes from outside: for each call to the store whether it fails and
  how, the identifier the UUID generator hands out, and the clock.
\<close>

record env =
  getErr :: "error option"
  patchErr :: "error option"
  statusPatchErr :: "error option"
  createOrPatchErr :: "error option"
  setOwnerReferenceErr :: "error option"
  newUUID :: string
  now :: Time

text \<open>
  What a pass does, in order: calls of the store client and of the two hooks. A patch event
  records the attempt and the content sent, whether or not the store accepts it.
\<close>

datatype ('s, 't) event =
    EvGet
  | EvProcessUpdate "('s, 't) object"
  | EvProcessDelete "('s, 't) object"
  | EvCreateOrPatch string string
  | EvStatusPatch 't
  | EvPatch "string list"

fun isProcessDelete :: "('s, 't) event \<Rightarrow> bool" where
  "isProcessDelete (EvProcessDelete _) = True"
| "isProcessDelete _ = False"

fun isPatch :: "('s, 't) event \<Rightarrow> bool" where
  "isPatch (EvPatch _) = True"
| "isPatch _ = False"

record ('s, 't) outcome =
  result :: Result
  err :: "error option"
  events :: "('s, 't) event list"
  world :: "('s, 't) world"

subsection \<open>Library functions the reconcilers call\<close>

text \<open>
  These functions belong to the Kubernetes libraries, outside the repository; each is
  written after the behaviour its library documents.

  \<open>metav1.Time.IsZero\<close>: a nil pointer and the zero time are both zero.
\<close>

definition IsZero :: "Time option \<Rightarrow> bool" where
  "IsZero t = (case t of None \<Rightarrow> True | Some n \<Rightarrow> n = 0)"

definition ContainsFinalizer :: "('s, 't) object \<Rightarrow> string \<Rightarrow> bool" where
  "ContainsFinalizer ob f = (f \<in> set (Finalizers (meta ob)))"

definition AddFinalizer :: "('s, 't) object \<Rightarrow> string \<Rightarrow> ('s, 't) object" where
  "AddFinalizer ob f =
     (if f \<in> set (Finalizers (meta ob)) then ob
      else ob\<lparr>meta := (meta ob)\<lparr>Finalizers := Finalizers (meta ob) @ [f]\<rparr>\<rparr>)"

definition RemoveFinalizer :: "('s, 't) object \<Rightarrow> string \<Rightarrow> ('s, 't) object" where
  "RemoveFinalizer ob f =
     ob\<lparr>meta := (meta ob)\<lparr>Finalizers := filter (\<lambda>e. e \<noteq> f) (Finalizers (meta ob))\<rparr>\<rparr>"

text \<open>
  Modelled from the spec: the object store and its client are outside the repository. The
  spec gives the client three operations, a fetch that answers not-found for an absent
  object and two patch channels, metadata and status, that succeed or fail independently;
  a patch is the delta between the snapshot taken at the fetch and the mutated copy.

  \<open>clnt.MergeFrom(object)\<close> sends the fields in which the modified copy differs from the
  snapshot; the store overwrites those fields and keeps the others.
\<close>

definition mergeFrom :: "'a \<Rightarrow> 'a \<Rightarrow> 'a \<Rightarrow> 'a" where
  "mergeFrom snapshot modified current = (if modified = snapshot then current else modified)"

definition client_Get :: "env \<Rightarrow> ('s, 't) world \<Rightarrow> error + ('s, 't) object" where
  "client_Get e w =
     (case getErr e of
        Some x \<Rightarrow> Inl x
      | None \<Rightarrow> (case store w of None \<Rightarrow> Inl NotFound | Some ob \<Rightarrow> Inr ob))"

text \<open>
  The patch of the main resource reaches the finalizers and the spec; the status is a
  subresource, which this channel leaves alone. On success the client overwrites the copy
  with the object the store answers.
\<close>

definition client_Patch ::
  "env \<Rightarrow> ('s, 't) object \<Rightarrow> ('s, 't) object \<Rightarrow> ('s, 't) world \<Rightarrow>
   error option \<times> ('s, 't) object \<times> ('s, 't) world" where
  "client_Patch e copy ob w =
     (case patchErr e of
        Some x \<Rightarrow> (Some x, copy, w)
      | None \<Rightarrow>
          (case store w of
             None \<Rightarrow> (Some NotFound, copy, w)
           | Some cur \<Rightarrow>
               (let new = cur\<lparr>
                      meta := (meta cur)\<lparr>Finalizers :=
                        mergeFrom (Finalizers (meta ob)) (Finalizers (meta copy))
                          (Finalizers (meta cur))\<rparr>,
                      spec := mergeFrom (spec ob) (spec copy) (spec cur)\<rparr>
                in (None, new, w\<lparr>store := Some new\<rparr>))))"

definition client_Status_Patch ::
  "env \<Rightarrow> ('s, 't) object \<Rightarrow> ('s, 't) object \<Rightarrow> ('s, 't) world \<Rightarrow>
   error option \<times> ('s, 't) object \<times> ('s, 't) world" where
  "client_Status_Patch e copy ob w =
     (case statusPatchErr e of
        Some x \<Rightarrow> (Some x, copy, w)
      | None \<Rightarrow>
          (case store w of
             None \<Rightarrow> (Some NotFound, copy, w)
           | Some cur \<Rightarrow>
               (let new = cur\<lparr>status := mergeFrom (status ob) (status copy) (status cur)\<rparr>
                in (None, new, w\<lparr>store := Some new\<rparr>))))"

text \<open>
  \<open>meta.SetStatusCondition\<close>: a condition of a new type is appended, stamped with the
  clock when it brings no transition time. The first condition of the same type is updated
  in place otherwise, and its transition time moves only when the status changes.
\<close>

definition updateCondition :: "Time \<Rightarrow> Condition \<Rightarrow> Condition \<Rightarrow> Condition" where
  "updateCondition t new old =
     (let c1 = (if Status old \<noteq> Status new
                then old\<lparr>Status := Status new,
                         LastTransitionTime :=
                           (if LastTransitionTime new \<noteq> 0 then LastTransitionTime new else t)\<rparr>
                else old)
      in c1\<lparr>Reason := Reason new, Message := Message new,
             ObservedGeneration := ObservedGeneration new\<rparr>)"

fun SetStatusCondition :: "Time \<Rightarrow> Condition list \<Rightarrow> Condition \<Rightarrow> Condition list" where
  "SetStatusCondition t [] new =
     [if LastTransitionTime new = 0 then new\<lparr>LastTransitionTime := t\<rparr> else new]"
| "SetStatusCondition t (c # cs) new =
     (if Type c = Type new then updateCondition t new c # cs
      else c # SetStatusCondition t cs new)"

text \<open>
  \<open>controllerutil.SetOwnerReference\<close>: the reference to the owner replaces the one of
  the same kind and name, or is appended. It fails when the owner's kind is unknown to the
  scheme, which the environment decides.
\<close>

fun upsertOwnerRef :: "OwnerReference \<Rightarrow> OwnerReference list \<Rightarrow> OwnerReference list" where
  "upsertOwnerRef r [] = [r]"
| "upsertOwnerRef r (x # xs) =
     (if oKind x = oKind r \<and> oName x = oName r then r # xs else x # upsertOwnerRef r xs)"

definition SetOwnerReference ::
  "env \<Rightarrow> string \<Rightarrow> ('s, 't) object \<Rightarrow> Secret \<Rightarrow> error + Secret" where
  "SetOwnerReference e kind owner s =
     (case setOwnerReferenceErr e of
        Some x \<Rightarrow> Inl x
      | None \<Rightarrow>
          Inr (s\<lparr>sBody := (sBody s)\<lparr>OwnerReferences :=
                 upsertOwnerRef \<lparr>oKind = kind, oName = Name (meta owner), oUID = UID (meta owner)\<rparr>
                   (OwnerReferences (sBody s))\<rparr>\<rparr>))"

text \<open>
  \<open>controllerutil.CreateOrPatch\<close>: fetch the secret under its key; mutate the fetched
  secret, or the given one when there is none; write the outcome. A failing mutation writes
  nothing. Writing a body equal to the stored one leaves the store as it is.
\<close>

definition CreateOrPatch ::
  "env \<Rightarrow> ('s, 't) world \<Rightarrow> Secret \<Rightarrow> (Secret \<Rightarrow> error + Secret) \<Rightarrow>
   error option \<times> Secret \<times> ('s, 't) world" where
  "CreateOrPatch e w s f =
     (case createOrPatchErr e of
        Some x \<Rightarrow> (Some x, s, w)
      | None \<Rightarrow>
          (let key = (sNamespace s, sName s);
               fetched = (case secrets w key of None \<Rightarrow> s | Some b \<Rightarrow> s\<lparr>sBody := b\<rparr>)
           in case f fetched of
                Inl x \<Rightarrow> (Some x, fetched, w)
              | Inr s' \<Rightarrow> (None, s', w\<lparr>secrets := (secrets w)(key \<mapsto> sBody s')\<rparr>)))"

text \<open>
  Modelled from the spec: \<open>pluginapi.FulfilledCondition\<close> is declared in the API package,
  outside the repository's sources; the spec fixes the condition type to \<open>Fulfilled\<close>.
\<close>

definition FulfilledCondition :: string where
  "FulfilledCondition = ''Fulfilled''"

section \<open>The reconcilers\<close>

text \<open>
  A hook takes the environment, the world and the copy of the object it may change, and
  gives back its result, its error, the changed copy, the world and what it did.
\<close>

type_synonym ('s, 't) hook =
  "env \<Rightarrow> ('s, 't) world \<Rightarrow> ('s, 't) object \<Rightarrow>
   Result \<times> error option \<times> ('s, 't) object \<times> ('s, 't) world \<times> ('s, 't) event list"

text \<open>
  \<open>AllocationReconciler.Reconcile\<close> and \<open>ReleaseReconciler.Reconcile\<close> are the same text
  but for the kind of the object and the receiver whose \<open>processUpdate\<close> and
  \<open>processDelete\<close> they call, so the body is written once, over the two hooks. The constant
  \<open>finalizerName\<close> is declared outside the given sources and is a parameter. Calls of the
  logger change neither the store nor the result and are left out.
\<close>

definition Reconcile ::
  "string \<Rightarrow> ('s, 't) hook \<Rightarrow> ('s, 't) hook \<Rightarrow> env \<Rightarrow> ('s, 't) world \<Rightarrow> ('s, 't) outcome" where
  "Reconcile finalizerName processUpdate processDelete e w =
     (case client_Get e w of
        Inl x \<Rightarrow>
          (if IsNotFound x
           then \<lparr>result = zeroResult, err = None, events = [EvGet], world = w\<rparr>
           else \<lparr>result = zeroResult, err = Some x, events = [EvGet], world = w\<rparr>)
      | Inr ob \<Rightarrow>
          (let deleting = \<not> IsZero (DeletionTimestamp (meta ob));
               finalizer = ContainsFinalizer ob finalizerName;
               copy = ob
           in if \<not> deleting \<and> \<not> finalizer then
                (let copy1 = AddFinalizer copy finalizerName
                 in case client_Patch e copy1 ob w of
                      (er, copy2, w1) \<Rightarrow>
                        \<lparr>result = zeroResult, err = er,
                         events = [EvGet, EvPatch (Finalizers (meta copy1))], world = w1\<rparr>)
              else if deleting then
                (case processDelete e w copy of
                   (res, Some x, copy1, w1, evs) \<Rightarrow>
                     \<lparr>result = res, err = Some x,
                      events = [EvGet, EvProcessDelete copy] @ evs, world = w1\<rparr>
                 | (res, None, copy1, w1, evs) \<Rightarrow>
                     (case client_Status_Patch e copy1 ob w1 of
                        (Some x, copy2, w2) \<Rightarrow>
                          \<lparr>result = res, err = Some x,
                           events = [EvGet, EvProcessDelete copy] @ evs
                             @ [EvStatusPatch (status copy1)],
                           world = w2\<rparr>
                      | (None, copy2, w2) \<Rightarrow>
                          (let copy3 = RemoveFinalizer copy2 finalizerName
                           in case client_Patch e copy3 ob w2 of
                                (er, copy4, w3) \<Rightarrow>
                                  \<lparr>result = res, err = er,
                                   events = [EvGet, EvProcessDelete copy] @ evs
                                     @ [EvStatusPatch (status copy1),
                                        EvPatch (Finalizers (meta copy3))],
                                   world = w3\<rparr>)))
              else
                (case processUpdate e w copy of
                   (res, Some x, copy1, w1, evs) \<Rightarrow>
                     \<lparr>result = res, err = Some x,
                      events = [EvGet, EvProcessUpdate copy] @ evs, world = w1\<rparr>
                 | (res, None, copy1, w1, evs) \<Rightarrow>
                     (case client_Status_Patch e copy1 ob w1 of
                        (er, copy2, w2) \<Rightarrow>
                          \<lparr>result = res, err = er,
                           events = [EvGet, EvProcessUpdate copy] @ evs
                             @ [EvStatusPatch (status copy1)],
                           world = w2\<rparr>))))"

subsection \<open>Allocation\<close>

definition AllocationReconciler_processUpdate ::
  "(NodeAllocationRequestSpec, NodeAllocationRequestStatus) hook" where
  "AllocationReconciler_processUpdate e w ob =
     (let ob1 = (if NodeID (status ob) = ''''
                 then ob\<lparr>status := (status ob)\<lparr>NodeID := newUUID e\<rparr>\<rparr>
                 else ob);
          secret = \<lparr>sNamespace = Namespace (meta ob1), sName = Name (meta ob1) @ ''-bmc'',
                    sBody = \<lparr>Data = Map.empty, OwnerReferences = []\<rparr>\<rparr>;
          ev = EvCreateOrPatch (sNamespace secret) (sName secret)
      in case CreateOrPatch e w secret
                (\<lambda>s. case SetOwnerReference e ''NodeAllocationRequest'' ob1 s of
                        Inl x \<Rightarrow> Inl x
                      | Inr s1 \<Rightarrow>
                          Inr (s1\<lparr>sBody := (sBody s1)\<lparr>Data :=
                                 (Data (sBody s1))(''username'' \<mapsto> ''myuser'',
                                                     ''password'' \<mapsto> ''mypass'')\<rparr>\<rparr>)) of
           (Some x, secret1, w1) \<Rightarrow> (zeroResult, Some x, ob1, w1, [ev])
         | (None, secret1, w1) \<Rightarrow>
             (let ob2 = ob1\<lparr>status := (status ob1)\<lparr>bmc :=
                          \<lparr>Address = ''https://mybmc.com'', CredentialsName = sName secret1\<rparr>\<rparr>\<rparr>;
                  ob3 = ob2\<lparr>status := (status ob2)\<lparr>aConditions :=
                          SetStatusCondition (now e) (aConditions (status ob2))
                            \<lparr>Type = FulfilledCondition, Status = ConditionTrue,
                             ObservedGeneration = 0, LastTransitionTime = 0,
                             Reason = ''Fulfilled'',
                             Message = ''The request has been fulfilled''\<rparr>\<rparr>\<rparr>
              in (zeroResult, None, ob3, w1, [ev])))"

definition AllocationReconciler_processDelete ::
  "(NodeAllocationRequestSpec, NodeAllocationRequestStatus) hook" where
  "AllocationReconciler_processDelete e w ob = (zeroResult, None, ob, w, [])"

definition AllocationReconciler_Reconcile ::
  "string \<Rightarrow> env \<Rightarrow> (NodeAllocationRequestSpec, NodeAllocationRequestStatus) world \<Rightarrow>
   (NodeAllocationRequestSpec, NodeAllocationRequestStatus) outcome" where
  "AllocationReconciler_Reconcile finalizerName =
     Reconcile finalizerName AllocationReconciler_processUpdate AllocationReconciler_processDelete"

subsection \<open>Release\<close>

definition ReleaseReconciler_processUpdate ::
  "(NodeReleaseRequestSpec, NodeReleaseRequestStatus) hook" where
  "ReleaseReconciler_processUpdate e w ob =
     (let ob1 = ob\<lparr>status := (status ob)\<lparr>rConditions :=
                  SetStatusCondition (now e) (rConditions (status ob))
                    \<lparr>Type = FulfilledCondition, Status = ConditionTrue,
                     ObservedGeneration = 0, LastTransitionTime = 0,
                     Reason = ''Fulfilled'',
                     Message = ''The request has been fulfilled''\<rparr>\<rparr>\<rparr>
      in (zeroResult, None, ob1, w, []))"

definition ReleaseReconciler_processDelete ::
  "(NodeReleaseRequestSpec, NodeReleaseRequestStatus) hook" where
  "ReleaseReconciler_processDelete e w ob = (zeroResult, None, ob, w, [])"

definition ReleaseReconciler_Reconcile ::
  "string \<Rightarrow> env \<Rightarrow> (NodeReleaseRequestSpec, NodeReleaseRequestStatus) world \<Rightarrow>
   (NodeReleaseRequestSpec, NodeReleaseRequestStatus) outcome" where
  "ReleaseReconciler_Reconcile finalizerName =
     Reconcile finalizerName ReleaseReconciler_processUpdate ReleaseReconciler_processDelete"

text \<open>The parts of what a hook gives back.\<close>

definition hookErr :: "Result \<times> error option \<times> 'o \<times> 'w \<times> 'v \<Rightarrow> error option" where
  "hookErr r = (case r of (res, er, ob, w, evs) \<Rightarrow> er)"

definition hookObject :: "Result \<times> error option \<times> 'o \<times> 'w \<times> 'v \<Rightarrow> 'o" where
  "hookObject r = (case r of (res, er, ob, w, evs) \<Rightarrow> ob)"

definition hookWorld :: "Result \<times> error option \<times> 'o \<times> 'w \<times> 'v \<Rightarrow> 'w" where
  "hookWorld r = (case r of (res, er, ob, w, evs) \<Rightarrow> w)"

text \<open>
  An allocation request on which the apply step has nothing left to do: it has a node
  identifier, its status names the credentials, setting the Fulfilled condition once more
  changes no condition, and the secret holds the credentials and the reference to its
  owner. It is a notion of the proofs, not of the code.
\<close>

definition settled ::
  "(NodeAllocationRequestSpec, NodeAllocationRequestStatus) world \<Rightarrow> NodeAllocationRequest \<Rightarrow> bool"
  where
  "settled w ob \<longleftrightarrow>
     NodeID (status ob) \<noteq> '''' \<and>
     bmc (status ob) =
       \<lparr>Address = ''https://mybmc.com'', CredentialsName = Name (meta ob) @ ''-bmc''\<rparr> \<and>
     (\<forall>t. SetStatusCondition t (aConditions (status ob))
            \<lparr>Type = FulfilledCondition, Status = ConditionTrue,
             ObservedGeneration = 0, LastTransitionTime = 0,
             Reason = ''Fulfilled'',
             Message = ''The request has been fulfilled''\<rparr> = aConditions (status ob)) \<and>
     (\<exists>body. secrets w (Namespace (meta ob), Name (meta ob) @ ''-bmc'') = Some body \<and>
        Data body ''username'' = Some ''myuser'' \<and>
        Data body ''password'' = Some ''mypass'' \<and>
        upsertOwnerRef \<lparr>oKind = ''NodeAllocationRequest'', oName = Name (meta ob),
                         oUID = UID (meta ob)\<rparr> (OwnerReferences body) =
          OwnerReferences body)"

section \<open>Example inputs\<close>

text \<open>
  The request of the README, a release request for the same node, and an environment in
  which every call to the store goes through.
\<close>

definition exFinalizer :: string where
  "exFinalizer = ''oran.acme.com/finalizer''"

definition exEnv :: env where
  "exEnv = \<lparr>getErr = None, patchErr = None, statusPatchErr = None, createOrPatchErr = None,
            setOwnerReferenceErr = None, newUUID = ''c3f64cf1-40c0'', now = 1000\<rparr>"

definition zeroAllocationStatus :: NodeAllocationRequestStatus where
  "zeroAllocationStatus =
     \<lparr>NodeID = '''', bmc = \<lparr>Address = '''', CredentialsName = ''''\<rparr>, aConditions = []\<rparr>"

definition exMeta :: "Time option \<Rightarrow> string list \<Rightarrow> ObjectMeta" where
  "exMeta dt fs = \<lparr>Namespace = ''europe'', Name = ''cu-113'', UID = ''u1'',
                    DeletionTimestamp = dt, Finalizers = fs\<rparr>"

definition exAllocation :: "Time option \<Rightarrow> string list \<Rightarrow> NodeAllocationRequest" where
  "exAllocation dt fs =
     \<lparr>meta = exMeta dt fs,
      spec = \<lparr>aCloudID = ''X'', aLocation = ''madrid'', aExtensions = Map.empty\<rparr>,
      status = zeroAllocationStatus\<rparr>"

definition exRelease :: "Time option \<Rightarrow> string list \<Rightarrow> NodeReleaseRequest" where
  "exRelease dt fs =
     \<lparr>meta = exMeta dt fs,
      spec = \<lparr>rCloudID = ''X'', rNodeID = ''N'', rExtensions = Map.empty\<rparr>,
      status = \<lparr>rConditions = []\<rparr>\<rparr>"

definition exWorld :: "('s, 't) object \<Rightarrow> ('s, 't) world" where
  "exWorld ob = \<lparr>store = Some ob, secrets = Map.empty\<rparr>"

definition exNoAllocation :: "(NodeAllocationRequestSpec, NodeAllocationRequestStatus) world" where
  "exNoAllocation = \<lparr>store = None, secrets = Map.empty\<rparr>"

definition exNoRelease :: "(NodeReleaseRequestSpec, NodeReleaseRequestStatus) world" where
  "exNoRelease = \<lparr>store = None, secrets = Map.empty\<rparr>"

text \<open>
  An allocation request that a pass has fulfilled, two environments in which one call to the
  store fails, and a cleanup hook that fails.
\<close>

definition exFulfilled :: NodeAllocationRequest where
  "exFulfilled = (exAllocation None [exFinalizer])\<lparr>status :=
     \<lparr>NodeID = ''acme-c3f6'',
      bmc = \<lparr>Address = ''https://mybmc.com'', CredentialsName = ''cu-113-bmc''\<rparr>,
      aConditions = []\<rparr>\<rparr>"

definition exEnvSecretsDown :: env where
  "exEnvSecretsDown = exEnv\<lparr>createOrPatchErr := Some Unavailable\<rparr>"

definition exEnvStatusConflict :: env where
  "exEnvStatusConflict = exEnv\<lparr>statusPatchErr := Some Conflict\<rparr>"

definition exFailingHook :: "('s, 't) hook" where
  "exFailingHook e w ob = (zeroResult, Some (Failure ''cleanup failed''), ob, w, [])"

section \<open>Evaluation rules and the passes of the engine\<close>

lemmas example_defs = exFinalizer_def exEnv_def zeroAllocationStatus_def exMeta_def
  exAllocation_def exRelease_def exWorld_def exNoAllocation_def exNoRelease_def
  exFulfilled_def exEnvSecretsDown_def exEnvStatusConflict_def exFailingHook_def

lemmas engine_defs = AllocationReconciler_Reconcile_def ReleaseReconciler_Reconcile_def
  Reconcile_def client_Get_def client_Patch_def client_Status_Patch_def IsNotFound_def
  IsZero_def ContainsFinalizer_def AddFinalizer_def RemoveFinalizer_def mergeFrom_def
  AllocationReconciler_processDelete_def ReleaseReconciler_processDelete_def
  ReleaseReconciler_processUpdate_def AllocationReconciler_processUpdate_def
  CreateOrPatch_def SetOwnerReference_def updateCondition_def FulfilledCondition_def Let_def

lemma IsZero_None [simp]: "IsZero None"
  by (simp add: IsZero_def)

lemma client_Get_Inr: "client_Get e w = Inr ob \<Longrightarrow> store w = Some ob \<and> getErr e = None"
  by (auto simp: client_Get_def split: option.splits)

lemma mergeFrom_same [simp]: "mergeFrom a b a = b"
  by (simp add: mergeFrom_def)

lemma mergeFrom_unchanged [simp]: "mergeFrom a a c = c"
  by (simp add: mergeFrom_def)

lemma store_update_same: "store w = Some ob \<Longrightarrow> w\<lparr>store := Some ob\<rparr> = w"
  by (cases w) simp

lemma client_Status_Patch_stored:
  "store w = Some ob \<Longrightarrow>
   client_Status_Patch e copy ob w =
     (case statusPatchErr e of
        Some x \<Rightarrow> (Some x, copy, w)
      | None \<Rightarrow> (None, ob\<lparr>status := status copy\<rparr>,
                  w\<lparr>store := Some (ob\<lparr>status := status copy\<rparr>)\<rparr>))"
  by (simp add: client_Status_Patch_def Let_def split: option.splits)

lemma client_Patch_stored:
  "store w = Some ob \<Longrightarrow> spec copy = spec ob \<Longrightarrow>
   client_Patch e copy ob w =
     (case patchErr e of
        Some x \<Rightarrow> (Some x, copy, w)
      | None \<Rightarrow> (None, ob\<lparr>meta := (meta ob)\<lparr>Finalizers := Finalizers (meta copy)\<rparr>\<rparr>,
                  w\<lparr>store := Some (ob\<lparr>meta := (meta ob)\<lparr>Finalizers := Finalizers (meta copy)\<rparr>\<rparr>)\<rparr>))"
  by (simp add: client_Patch_def Let_def split: option.splits)

text \<open>The four ways through a pass, one rewrite rule each.\<close>

lemma Reconcile_get_error:
  "client_Get e w = Inl x \<Longrightarrow>
   Reconcile fin pU pD e w =
     \<lparr>result = zeroResult, err = (if IsNotFound x then None else Some x),
      events = [EvGet], world = w\<rparr>"
  by (simp add: Reconcile_def Let_def)

lemma Reconcile_unclaimed:
  "client_Get e w = Inr ob \<Longrightarrow> IsZero (DeletionTimestamp (meta ob)) \<Longrightarrow>
   \<not> ContainsFinalizer ob fin \<Longrightarrow>
   Reconcile fin pU pD e w =
     (case client_Patch e (AddFinalizer ob fin) ob w of
        (er, copy2, w1) \<Rightarrow>
          \<lparr>result = zeroResult, err = er,
           events = [EvGet, EvPatch (Finalizers (meta (AddFinalizer ob fin)))], world = w1\<rparr>)"
  by (simp add: Reconcile_def Let_def)

lemma Reconcile_deleting:
  "client_Get e w = Inr ob \<Longrightarrow> \<not> IsZero (DeletionTimestamp (meta ob)) \<Longrightarrow>
   pD e w ob = (res, er, copy1, w1, evs) \<Longrightarrow>
   Reconcile fin pU pD e w =
     (case er of
        Some x \<Rightarrow>
          \<lparr>result = res, err = Some x, events = [EvGet, EvProcessDelete ob] @ evs, world = w1\<rparr>
      | None \<Rightarrow>
          (case client_Status_Patch e copy1 ob w1 of
             (Some x, copy2, w2) \<Rightarrow>
               \<lparr>result = res, err = Some x,
                events = [EvGet, EvProcessDelete ob] @ evs @ [EvStatusPatch (status copy1)],
                world = w2\<rparr>
           | (None, copy2, w2) \<Rightarrow>
               (case client_Patch e (RemoveFinalizer copy2 fin) ob w2 of
                  (er2, copy4, w3) \<Rightarrow>
                    \<lparr>result = res, err = er2,
                     events = [EvGet, EvProcessDelete ob] @ evs
                       @ [EvStatusPatch (status copy1),
                          EvPatch (Finalizers (meta (RemoveFinalizer copy2 fin)))],
                     world = w3\<rparr>)))"
  by (cases er) (simp_all add: Reconcile_def Let_def split: prod.splits option.splits)

lemma Reconcile_active:
  "client_Get e w = Inr ob \<Longrightarrow> IsZero (DeletionTimestamp (meta ob)) \<Longrightarrow>
   ContainsFinalizer ob fin \<Longrightarrow>
   pU e w ob = (res, er, copy1, w1, evs) \<Longrightarrow>
   Reconcile fin pU pD e w =
     (case er of
        Some x \<Rightarrow>
          \<lparr>result = res, err = Some x, events = [EvGet, EvProcessUpdate ob] @ evs, world = w1\<rparr>
      | None \<Rightarrow>
          (case client_Status_Patch e copy1 ob w1 of
             (er2, copy2, w2) \<Rightarrow>
               \<lparr>result = res, err = er2,
                events = [EvGet, EvProcessUpdate ob] @ evs @ [EvStatusPatch (status copy1)],
                world = w2\<rparr>))"
  by (cases er) (simp_all add: Reconcile_def Let_def split: prod.splits option.splits)

lemma Reconcile_unclaimed_explicit:
  assumes "client_Get e w = Inr ob" "IsZero (DeletionTimestamp (meta ob))"
    "\<not> ContainsFinalizer ob fin"
  shows "Reconcile fin pU pD e w =
     \<lparr>result = zeroResult, err = patchErr e,
      events = [EvGet, EvPatch (Finalizers (meta ob) @ [fin])],
      world = (case patchErr e of
                 Some x \<Rightarrow> w
               | None \<Rightarrow> w\<lparr>store := Some (ob\<lparr>meta := (meta ob)\<lparr>Finalizers :=
                            Finalizers (meta ob) @ [fin]\<rparr>\<rparr>)\<rparr>)\<rparr>"
proof -
  have st: "store w = Some ob" using assms(1) by (simp add: client_Get_Inr)
  have add: "AddFinalizer ob fin = ob\<lparr>meta := (meta ob)\<lparr>Finalizers := Finalizers (meta ob) @ [fin]\<rparr>\<rparr>"
    using assms(3) by (simp add: AddFinalizer_def ContainsFinalizer_def)
  show ?thesis
    by (simp add: Reconcile_unclaimed [where pD = pD and pU = pU, OF assms] add
        client_Patch_stored [OF st] split: option.splits)
qed

lemma Reconcile_deleting_noop:
  assumes "client_Get e w = Inr ob" "\<not> IsZero (DeletionTimestamp (meta ob))"
    "pD e w ob = (res, None, ob, w, [])"
  shows "Reconcile fin pU pD e w =
     (case statusPatchErr e of
        Some x \<Rightarrow>
          \<lparr>result = res, err = Some x,
           events = [EvGet, EvProcessDelete ob, EvStatusPatch (status ob)], world = w\<rparr>
      | None \<Rightarrow>
          \<lparr>result = res, err = patchErr e,
           events = [EvGet, EvProcessDelete ob, EvStatusPatch (status ob),
                     EvPatch (filter (\<lambda>f. f \<noteq> fin) (Finalizers (meta ob)))],
           world = (case patchErr e of
                      Some x \<Rightarrow> w
                    | None \<Rightarrow> w\<lparr>store := Some (RemoveFinalizer ob fin)\<rparr>)\<rparr>)"
proof -
  have st: "store w = Some ob" using assms(1) by (simp add: client_Get_Inr)
  show ?thesis
    by (simp add: Reconcile_deleting [where pD = pD and er = None, OF assms]
        client_Status_Patch_stored [OF st] store_update_same [OF st]
        client_Patch_stored [OF st] RemoveFinalizer_def split: option.splits)
qed

lemma Alloc_processUpdate_shape:
  "AllocationReconciler_processUpdate e w ob = (res, er, c, w1, evs) \<Longrightarrow>
   res = zeroResult \<and>
   evs = [EvCreateOrPatch (Namespace (meta ob)) (Name (meta ob) @ ''-bmc'')]"
  by (auto simp: AllocationReconciler_processUpdate_def Let_def split: prod.splits option.splits)

lemma Reconcile_events_hook_free:
  assumes noU: "\<And>ob r er c w1 evs. pU e w ob = (r, er, c, w1, evs) \<Longrightarrow> EvProcessDelete ob' \<notin> set evs"
    and noD: "\<And>ob r er c w1 evs. pD e w ob = (r, er, c, w1, evs) \<Longrightarrow> EvProcessDelete ob' \<notin> set evs"
    and ev: "EvProcessDelete ob' \<in> set (events (Reconcile fin pU pD e w))"
  shows "client_Get e w = Inr ob' \<and> \<not> IsZero (DeletionTimestamp (meta ob'))"
proof (cases "client_Get e w")
  case (Inl x)
  with ev show ?thesis by (simp add: Reconcile_get_error)
next
  case (Inr ob)
  show ?thesis
  proof (cases "IsZero (DeletionTimestamp (meta ob))")
    case zero: True
    show ?thesis
    proof (cases "ContainsFinalizer ob fin")
      case False
      with ev Inr zero show ?thesis
        by (simp add: Reconcile_unclaimed_explicit [where pU = pU and pD = pD])
    next
      case True
      obtain r er c w1 evs where h: "pU e w ob = (r, er, c, w1, evs)"
        by (metis prod_cases5)
      from ev noU [OF h] show ?thesis
        by (simp add: Reconcile_active [where pU = pU, OF Inr zero True h]
            split: option.splits prod.splits)
    qed
  next
    case False
    obtain r er c w1 evs where h: "pD e w ob = (r, er, c, w1, evs)"
      by (metis prod_cases5)
    from ev noD [OF h] have "ob' = ob"
      by (simp add: Reconcile_deleting [where pD = pD, OF Inr False h]
          split: option.splits prod.splits)
    with Inr False show ?thesis by simp
  qed
qed

lemma Reconcile_trace_cases:
  assumes pD: "\<And>ob. pD e w ob = (zeroResult, None, ob, w, [])"
    and pU: "\<And>ob r er c w1 evs. pU e w ob = (r, er, c, w1, evs) \<Longrightarrow>
               \<forall>x \<in> set evs. \<not> isPatch x \<and> \<not> isProcessDelete x"
  obtains (absent) x where "client_Get e w = Inl x"
      "events (Reconcile fin pU pD e w) = [EvGet]"
  | (unclaimed) ob where "client_Get e w = Inr ob" "IsZero (DeletionTimestamp (meta ob))"
      "\<not> ContainsFinalizer ob fin"
      "events (Reconcile fin pU pD e w) = [EvGet, EvPatch (Finalizers (meta ob) @ [fin])]"
  | (deleting) ob tail where "client_Get e w = Inr ob"
      "\<not> IsZero (DeletionTimestamp (meta ob))"
      "events (Reconcile fin pU pD e w) =
         [EvGet, EvProcessDelete ob, EvStatusPatch (status ob)] @ tail"
      "tail = [] \<or> tail = [EvPatch (filter (\<lambda>f. f \<noteq> fin) (Finalizers (meta ob)))]"
  | (active) ob tail where "client_Get e w = Inr ob" "IsZero (DeletionTimestamp (meta ob))"
      "ContainsFinalizer ob fin"
      "events (Reconcile fin pU pD e w) = [EvGet, EvProcessUpdate ob] @ tail"
      "\<forall>x \<in> set tail. \<not> isPatch x \<and> \<not> isProcessDelete x"
proof (cases "client_Get e w")
  case (Inl x)
  then show ?thesis using absent by (simp add: Reconcile_get_error)
next
  case (Inr ob)
  show ?thesis
  proof (cases "IsZero (DeletionTimestamp (meta ob))")
    case zero: True
    show ?thesis
    proof (cases "ContainsFinalizer ob fin")
      case False
      with Inr zero show ?thesis
        using unclaimed by (simp add: Reconcile_unclaimed_explicit [where pU = pU and pD = pD])
    next
      case True
      obtain r er c w1 evs where h: "pU e w ob = (r, er, c, w1, evs)"
        by (metis prod_cases5)
      have "\<exists>tail. events (Reconcile fin pU pD e w) = [EvGet, EvProcessUpdate ob] @ tail \<and>
              (\<forall>x \<in> set tail. \<not> isPatch x \<and> \<not> isProcessDelete x)"
        using pU [OF h]
        by (simp add: Reconcile_active [where pU = pU, OF Inr zero True h]
            split: option.splits prod.splits)
      with Inr zero True show ?thesis using active by blast
    qed
  next
    case False
    have "events (Reconcile fin pU pD e w) =
        [EvGet, EvProcessDelete ob, EvStatusPatch (status ob)] @
        (case statusPatchErr e of Some x \<Rightarrow> []
         | None \<Rightarrow> [EvPatch (filter (\<lambda>f. f \<noteq> fin) (Finalizers (meta ob)))])"
      by (simp add: Reconcile_deleting_noop [where pD = pD, OF Inr False pD]
          split: option.splits)
    with Inr False show ?thesis using deleting [of ob] by (auto split: option.splits)
  qed
qed

lemma Alloc_hooks_quiet:
  "AllocationReconciler_processUpdate e w ob = (r, er, c, w1, evs) \<Longrightarrow>
   \<forall>x \<in> set evs. \<not> isPatch x \<and> \<not> isProcessDelete x"
  by (auto dest: Alloc_processUpdate_shape)

lemma Release_hooks_quiet:
  "ReleaseReconciler_processUpdate e w ob = (r, er, c, w1, evs) \<Longrightarrow>
   \<forall>x \<in> set evs. \<not> isPatch x \<and> \<not> isProcessDelete x"
  by (auto simp: ReleaseReconciler_processUpdate_def Let_def)

lemma Reconcile_cleanup_order:
  assumes pD': "\<forall>ob. pD e w ob = (zeroResult, None, ob, w, [])"
    and pU': "\<forall>ob r er c w1 evs. pU e w ob = (r, er, c, w1, evs) \<longrightarrow>
               (\<forall>x \<in> set evs. \<not> isPatch x \<and> \<not> isProcessDelete x)"
  shows "(\<forall>pre ob post. events (Reconcile fin pU pD e w) = pre @ EvProcessDelete ob # post \<longrightarrow>
            store w = Some ob \<and> DeletionTimestamp (meta ob) \<noteq> None \<and> \<not> list_ex isPatch pre) \<and>
         (\<forall>pre fs post. events (Reconcile fin pU pD e w) = pre @ EvPatch fs # post \<and>
            fin \<notin> set fs \<longrightarrow> list_ex isProcessDelete pre) \<and>
         (\<forall>ob. client_Get e w = Inr ob \<and> \<not> IsZero (DeletionTimestamp (meta ob)) \<longrightarrow>
            EvProcessDelete ob \<in> set (events (Reconcile fin pU pD e w)))"
proof (rule Reconcile_trace_cases [where pD = pD and pU = pU and e = e and w = w and fin = fin])
  show "\<And>ob. pD e w ob = (zeroResult, None, ob, w, [])" using pD' by simp
  show "\<And>ob r er c w1 evs. pU e w ob = (r, er, c, w1, evs) \<Longrightarrow>
          \<forall>x \<in> set evs. \<not> isPatch x \<and> \<not> isProcessDelete x" using pU' by blast
next
  fix x
  assume "client_Get e w = Inl x" "events (Reconcile fin pU pD e w) = [EvGet]"
  then show ?thesis by (auto simp: Cons_eq_append_conv)
next
  fix ob
  assume "client_Get e w = Inr ob" "IsZero (DeletionTimestamp (meta ob))"
    "\<not> ContainsFinalizer ob fin"
    "events (Reconcile fin pU pD e w) = [EvGet, EvPatch (Finalizers (meta ob) @ [fin])]"
  then show ?thesis by (auto simp: Cons_eq_append_conv)
next
  fix ob tail
  assume g: "client_Get e w = Inr ob" and nz: "\<not> IsZero (DeletionTimestamp (meta ob))"
    and tr: "events (Reconcile fin pU pD e w) =
         [EvGet, EvProcessDelete ob, EvStatusPatch (status ob)] @ tail"
    and tl: "tail = [] \<or> tail = [EvPatch (filter (\<lambda>f. f \<noteq> fin) (Finalizers (meta ob)))]"
  have st: "store w = Some ob" using g by (simp add: client_Get_Inr)
  have dt: "DeletionTimestamp (meta ob) \<noteq> None"
    using nz by (auto simp: IsZero_def split: option.splits)
  from tl show ?thesis
  proof
    assume "tail = []"
    with g nz tr st dt show ?thesis by (auto simp: Cons_eq_append_conv)
  next
    assume "tail = [EvPatch (filter (\<lambda>f. f \<noteq> fin) (Finalizers (meta ob)))]"
    with g nz tr st dt show ?thesis by (auto simp: Cons_eq_append_conv)
  qed
next
  fix ob tail
  assume g: "client_Get e w = Inr ob" and z: "IsZero (DeletionTimestamp (meta ob))"
    and "ContainsFinalizer ob fin"
    and tr: "events (Reconcile fin pU pD e w) = [EvGet, EvProcessUpdate ob] @ tail"
    and q: "\<forall>x \<in> set tail. \<not> isPatch x \<and> \<not> isProcessDelete x"
  have a: "\<And>pre x post. tail = pre @ x # post \<Longrightarrow> \<not> isPatch x \<and> \<not> isProcessDelete x"
    using q by auto
  from g z tr show ?thesis
    by (auto simp: Cons_eq_append_conv dest: a)
qed


lemma Alloc_processUpdate_error_world:
  "AllocationReconciler_processUpdate e w ob = (res, Some x, c, w1, evs) \<Longrightarrow> w1 = w"
  by (auto simp: AllocationReconciler_processUpdate_def CreateOrPatch_def Let_def
      split: prod.splits option.splits sum.splits)

lemma exAllocation_deleting_events:
  "events (AllocationReconciler_Reconcile exFinalizer exEnv
             (exWorld (exAllocation (Some 2000) [exFinalizer]))) =
   [EvGet, EvProcessDelete (exAllocation (Some 2000) [exFinalizer]),
    EvStatusPatch zeroAllocationStatus, EvPatch []]"
  by (simp add: engine_defs example_defs)

lemma exRelease_deleting_events:
  "events (ReleaseReconciler_Reconcile exFinalizer exEnv
             (exWorld (exRelease (Some 2000) [exFinalizer]))) =
   [EvGet, EvProcessDelete (exRelease (Some 2000) [exFinalizer]),
    EvStatusPatch \<lparr>rConditions = []\<rparr>, EvPatch []]"
  by (simp add: engine_defs example_defs)

lemma exAllocation_hook_down:
  "AllocationReconciler_processUpdate exEnvSecretsDown (exWorld (exAllocation None [exFinalizer]))
     (exAllocation None [exFinalizer]) =
   (zeroResult, Some Unavailable,
    (exAllocation None [exFinalizer])\<lparr>status := zeroAllocationStatus\<lparr>NodeID := ''c3f64cf1-40c0''\<rparr>\<rparr>,
    exWorld (exAllocation None [exFinalizer]), [EvCreateOrPatch ''europe'' ''cu-113-bmc''])"
  by (simp add: engine_defs example_defs)


text \<open>Two passes in a row: what the first one wrote is what the second one finds.\<close>

lemma updateCondition_Type [simp]: "Type (updateCondition t new c) = Type c"
  by (simp add: updateCondition_def Let_def)

lemma updateCondition_idem [simp]:
  "updateCondition t2 new (updateCondition t1 new c) = updateCondition t1 new c"
  by (simp add: updateCondition_def Let_def)

lemma SetStatusCondition_idem [simp]:
  "SetStatusCondition t2 (SetStatusCondition t1 cs new) new = SetStatusCondition t1 cs new"
  by (induction cs) (auto simp: updateCondition_def Let_def)

lemma upsertOwnerRef_idem [simp]: "upsertOwnerRef r (upsertOwnerRef r xs) = upsertOwnerRef r xs"
  by (induction xs) auto





lemma settled_store [simp]: "settled (w\<lparr>store := s\<rparr>) ob = settled w ob"
  by (simp add: settled_def)

lemma RemoveFinalizer_idem [simp]:
  "RemoveFinalizer (RemoveFinalizer ob fin) fin = RemoveFinalizer ob fin"
  by (simp add: RemoveFinalizer_def)

lemma RemoveFinalizer_DeletionTimestamp [simp]:
  "DeletionTimestamp (meta (RemoveFinalizer ob fin)) = DeletionTimestamp (meta ob)"
  by (simp add: RemoveFinalizer_def)









section \<open>Properties of a pass\<close>

text \<open>
  C3. No cleanup without delete: whenever a pass of either reconciler calls
  \<open>processDelete\<close>, the call is on the object the pass fetched, and that object's
  deletion timestamp is set. An object with no deletion timestamp never sees the hook.
\<close>

theorem cleanup_only_when_deleting:
  "(EvProcessDelete ob \<in> set (events (AllocationReconciler_Reconcile fin e w)) \<longrightarrow>
      client_Get e w = Inr ob \<and> DeletionTimestamp (meta ob) \<noteq> None) \<and>
   (EvProcessDelete ob' \<in> set (events (ReleaseReconciler_Reconcile fin e' w')) \<longrightarrow>
      client_Get e' w' = Inr ob' \<and> DeletionTimestamp (meta ob') \<noteq> None)"
proof (intro conjI impI)
  assume a: "EvProcessDelete ob \<in> set (events (AllocationReconciler_Reconcile fin e w))"
  have "client_Get e w = Inr ob \<and> \<not> IsZero (DeletionTimestamp (meta ob))"
  proof (rule Reconcile_events_hook_free)
    show "EvProcessDelete ob \<in> set (events (Reconcile fin AllocationReconciler_processUpdate
        AllocationReconciler_processDelete e w))"
      using a by (simp add: AllocationReconciler_Reconcile_def)
  qed (auto dest: Alloc_processUpdate_shape simp: AllocationReconciler_processDelete_def)
  then show "client_Get e w = Inr ob" and "DeletionTimestamp (meta ob) \<noteq> None"
    by (auto simp: IsZero_def split: option.splits)
next
  assume a: "EvProcessDelete ob' \<in> set (events (ReleaseReconciler_Reconcile fin e' w'))"
  have "client_Get e' w' = Inr ob' \<and> \<not> IsZero (DeletionTimestamp (meta ob'))"
  proof (rule Reconcile_events_hook_free)
    show "EvProcessDelete ob' \<in> set (events (Reconcile fin ReleaseReconciler_processUpdate
        ReleaseReconciler_processDelete e' w'))"
      using a by (simp add: ReleaseReconciler_Reconcile_def)
  qed (auto simp: ReleaseReconciler_processDelete_def ReleaseReconciler_processUpdate_def Let_def)
  then show "client_Get e' w' = Inr ob'" and "DeletionTimestamp (meta ob') \<noteq> None"
    by (auto simp: IsZero_def split: option.splits)
qed

theorem cleanup_only_when_deleting_witness:
  "EvProcessDelete (exAllocation (Some 2000) [exFinalizer])
     \<in> set (events (AllocationReconciler_Reconcile exFinalizer exEnv
                      (exWorld (exAllocation (Some 2000) [exFinalizer])))) \<and>
   client_Get exEnv (exWorld (exAllocation (Some 2000) [exFinalizer]))
     = Inr (exAllocation (Some 2000) [exFinalizer]) \<and>
   DeletionTimestamp (meta (exAllocation (Some 2000) [exFinalizer])) \<noteq> None \<and>
   EvProcessDelete (exRelease (Some 2000) [exFinalizer])
     \<in> set (events (ReleaseReconciler_Reconcile exFinalizer exEnv
                      (exWorld (exRelease (Some 2000) [exFinalizer])))) \<and>
   client_Get exEnv (exWorld (exRelease (Some 2000) [exFinalizer]))
     = Inr (exRelease (Some 2000) [exFinalizer]) \<and>
   DeletionTimestamp (meta (exRelease (Some 2000) [exFinalizer])) \<noteq> None"
proof -
  have a: "EvProcessDelete (exAllocation (Some 2000) [exFinalizer])
     \<in> set (events (AllocationReconciler_Reconcile exFinalizer exEnv
                      (exWorld (exAllocation (Some 2000) [exFinalizer]))))"
    by (simp add: engine_defs example_defs)
  have b: "EvProcessDelete (exRelease (Some 2000) [exFinalizer])
     \<in> set (events (ReleaseReconciler_Reconcile exFinalizer exEnv
                      (exWorld (exRelease (Some 2000) [exFinalizer]))))"
    by (simp add: engine_defs example_defs)
  from a b cleanup_only_when_deleting [of "exAllocation (Some 2000) [exFinalizer]" exFinalizer
      exEnv "exWorld (exAllocation (Some 2000) [exFinalizer])"
      "exRelease (Some 2000) [exFinalizer]" exEnv
      "exWorld (exRelease (Some 2000) [exFinalizer])"]
  show ?thesis by blast
qed

text \<open>
  C4. The finalizer-add pass is isolated. On a fetched object with no deletion timestamp
  and without the finalizer, a pass of either reconciler does two things only: the fetch,
  and one patch of the metadata that carries the finalizer list with the token appended.
  No hook runs and no status patch is sent. When the store accepts the patch the stored
  object differs from the fetched one in its finalizer list alone, and the secrets are
  untouched; when the store refuses it nothing changes and the refusal is returned.
\<close>

theorem finalizer_add_isolated:
  "(client_Get e w = Inr ob \<and> DeletionTimestamp (meta ob) = None \<and>
    fin \<notin> set (Finalizers (meta ob)) \<longrightarrow>
      AllocationReconciler_Reconcile fin e w =
        \<lparr>result = zeroResult, err = patchErr e,
         events = [EvGet, EvPatch (Finalizers (meta ob) @ [fin])],
         world = (case patchErr e of
                    Some x \<Rightarrow> w
                  | None \<Rightarrow> w\<lparr>store := Some (ob\<lparr>meta := (meta ob)\<lparr>Finalizers :=
                               Finalizers (meta ob) @ [fin]\<rparr>\<rparr>)\<rparr>)\<rparr>) \<and>
   (client_Get e' w' = Inr ob' \<and> DeletionTimestamp (meta ob') = None \<and>
    fin \<notin> set (Finalizers (meta ob')) \<longrightarrow>
      ReleaseReconciler_Reconcile fin e' w' =
        \<lparr>result = zeroResult, err = patchErr e',
         events = [EvGet, EvPatch (Finalizers (meta ob') @ [fin])],
         world = (case patchErr e' of
                    Some x \<Rightarrow> w'
                  | None \<Rightarrow> w'\<lparr>store := Some (ob'\<lparr>meta := (meta ob')\<lparr>Finalizers :=
                               Finalizers (meta ob') @ [fin]\<rparr>\<rparr>)\<rparr>)\<rparr>)"
  by (simp add: AllocationReconciler_Reconcile_def ReleaseReconciler_Reconcile_def
      Reconcile_unclaimed_explicit ContainsFinalizer_def)

theorem finalizer_add_isolated_witness:
  "client_Get exEnv (exWorld (exAllocation None [])) = Inr (exAllocation None []) \<and>
   client_Get exEnv (exWorld (exRelease None [])) = Inr (exRelease None []) \<and>
   DeletionTimestamp (meta (exAllocation None [])) = None \<and>
   exFinalizer \<notin> set (Finalizers (meta (exAllocation None []))) \<and>
   DeletionTimestamp (meta (exRelease None [])) = None \<and>
   exFinalizer \<notin> set (Finalizers (meta (exRelease None []))) \<and>
   AllocationReconciler_Reconcile exFinalizer exEnv (exWorld (exAllocation None [])) =
     \<lparr>result = zeroResult, err = None, events = [EvGet, EvPatch [exFinalizer]],
      world = exWorld (exAllocation None [exFinalizer])\<rparr> \<and>
   ReleaseReconciler_Reconcile exFinalizer exEnv (exWorld (exRelease None [])) =
     \<lparr>result = zeroResult, err = None, events = [EvGet, EvPatch [exFinalizer]],
      world = exWorld (exRelease None [exFinalizer])\<rparr>"
proof -
  have a: "client_Get exEnv (exWorld (exAllocation None [])) = Inr (exAllocation None [])"
    by (simp add: client_Get_def exEnv_def exWorld_def)
  have r: "client_Get exEnv (exWorld (exRelease None [])) = Inr (exRelease None [])"
    by (simp add: client_Get_def exEnv_def exWorld_def)
  have ma: "DeletionTimestamp (meta (exAllocation None [])) = None
      \<and> exFinalizer \<notin> set (Finalizers (meta (exAllocation None [])))"
    by (simp add: exAllocation_def exMeta_def)
  have mr: "DeletionTimestamp (meta (exRelease None [])) = None
      \<and> exFinalizer \<notin> set (Finalizers (meta (exRelease None [])))"
    by (simp add: exRelease_def exMeta_def)
  from finalizer_add_isolated [of exEnv "exWorld (exAllocation None [])" "exAllocation None []"
      exFinalizer exEnv "exWorld (exRelease None [])" "exRelease None []"] a r ma mr
  show ?thesis
    by (simp add: exEnv_def exWorld_def exAllocation_def exRelease_def exMeta_def)
qed

text \<open>
  C6. Not found is success. When the fetch answers not-found, a pass of either reconciler
  returns the zero result and no error, and has done nothing but the fetch: no hook, no
  patch, the world as it was.
\<close>

theorem not_found_is_success:
  "(client_Get e w = Inl x \<and> IsNotFound x \<longrightarrow>
      AllocationReconciler_Reconcile fin e w =
        \<lparr>result = zeroResult, err = None, events = [EvGet], world = w\<rparr>) \<and>
   (client_Get e' w' = Inl x' \<and> IsNotFound x' \<longrightarrow>
      ReleaseReconciler_Reconcile fin e' w' =
        \<lparr>result = zeroResult, err = None, events = [EvGet], world = w'\<rparr>)"
  by (simp add: AllocationReconciler_Reconcile_def ReleaseReconciler_Reconcile_def
      Reconcile_get_error)

theorem not_found_is_success_witness:
  "client_Get exEnv exNoAllocation = Inl NotFound \<and>
   client_Get exEnv exNoRelease = Inl NotFound \<and>
   IsNotFound NotFound \<and>
   AllocationReconciler_Reconcile exFinalizer exEnv exNoAllocation =
     \<lparr>result = zeroResult, err = None, events = [EvGet], world = exNoAllocation\<rparr> \<and>
   ReleaseReconciler_Reconcile exFinalizer exEnv exNoRelease =
     \<lparr>result = zeroResult, err = None, events = [EvGet], world = exNoRelease\<rparr>"
proof -
  have a: "client_Get exEnv exNoAllocation = Inl NotFound"
    by (simp add: client_Get_def exEnv_def exNoAllocation_def)
  have r: "client_Get exEnv exNoRelease = Inl NotFound"
    by (simp add: client_Get_def exEnv_def exNoRelease_def)
  have n: "IsNotFound NotFound" by (simp add: IsNotFound_def)
  from not_found_is_success [of exEnv exNoAllocation NotFound exFinalizer exEnv exNoRelease
      NotFound] a r n
  show ?thesis by simp
qed

text \<open>
  C2, as the code has it. Cleanup sits between the fetch and the removal of the finalizer,
  but it does not ask for the finalizer. In a pass of either reconciler:
  \<^item> \<open>processDelete\<close> is called on the object as it is stored, whose deletion timestamp
    is set, and no metadata patch comes before the call, so a finalizer that was there at
    the fetch is still there when the hook runs;
  \<^item> a metadata patch whose finalizer list lacks the token comes only after
    \<open>processDelete\<close> has run;
  \<^item> every fetched object that is being deleted gets the call, with the finalizer or
    without it.
\<close>

theorem cleanup_before_finalizer_removal:
  "(events (AllocationReconciler_Reconcile fin e w) = pre @ EvProcessDelete ob # post \<longrightarrow>
      store w = Some ob \<and> DeletionTimestamp (meta ob) \<noteq> None \<and> \<not> list_ex isPatch pre) \<and>
   (events (AllocationReconciler_Reconcile fin e w) = pre1 @ EvPatch fs # post1 \<and>
      fin \<notin> set fs \<longrightarrow> list_ex isProcessDelete pre1) \<and>
   (client_Get e w = Inr ob2 \<and> \<not> IsZero (DeletionTimestamp (meta ob2)) \<longrightarrow>
      EvProcessDelete ob2 \<in> set (events (AllocationReconciler_Reconcile fin e w))) \<and>
   (events (ReleaseReconciler_Reconcile fin e' w') = pre' @ EvProcessDelete ob' # post' \<longrightarrow>
      store w' = Some ob' \<and> DeletionTimestamp (meta ob') \<noteq> None \<and> \<not> list_ex isPatch pre') \<and>
   (events (ReleaseReconciler_Reconcile fin e' w') = pre1' @ EvPatch fs' # post1' \<and>
      fin \<notin> set fs' \<longrightarrow> list_ex isProcessDelete pre1') \<and>
   (client_Get e' w' = Inr ob2' \<and> \<not> IsZero (DeletionTimestamp (meta ob2')) \<longrightarrow>
      EvProcessDelete ob2' \<in> set (events (ReleaseReconciler_Reconcile fin e' w')))"
proof -
  have a: "\<forall>ob. AllocationReconciler_processDelete e w ob = (zeroResult, None, ob, w, [])"
    by (simp add: AllocationReconciler_processDelete_def)
  have r: "\<forall>ob. ReleaseReconciler_processDelete e' w' ob = (zeroResult, None, ob, w', [])"
    by (simp add: ReleaseReconciler_processDelete_def)
  have qa: "\<forall>ob r er c w1 evs.
      AllocationReconciler_processUpdate e w ob = (r, er, c, w1, evs) \<longrightarrow>
      (\<forall>x \<in> set evs. \<not> isPatch x \<and> \<not> isProcessDelete x)"
    using Alloc_hooks_quiet by blast
  have qr: "\<forall>ob r er c w1 evs.
      ReleaseReconciler_processUpdate e' w' ob = (r, er, c, w1, evs) \<longrightarrow>
      (\<forall>x \<in> set evs. \<not> isPatch x \<and> \<not> isProcessDelete x)"
    using Release_hooks_quiet by blast
  note A = Reconcile_cleanup_order [where fin = fin and e = e and w = w
      and pD = AllocationReconciler_processDelete and pU = AllocationReconciler_processUpdate, OF a qa,
      folded AllocationReconciler_Reconcile_def]
  note R = Reconcile_cleanup_order [where fin = fin and e = e' and w = w'
      and pD = ReleaseReconciler_processDelete and pU = ReleaseReconciler_processUpdate, OF r qr,
      folded ReleaseReconciler_Reconcile_def]
  from A R show ?thesis by blast
qed

theorem cleanup_before_finalizer_removal_witness:
  "events (AllocationReconciler_Reconcile exFinalizer exEnv
             (exWorld (exAllocation (Some 2000) [exFinalizer]))) =
     [EvGet] @ EvProcessDelete (exAllocation (Some 2000) [exFinalizer])
       # [EvStatusPatch zeroAllocationStatus, EvPatch []] \<and>
   events (AllocationReconciler_Reconcile exFinalizer exEnv
             (exWorld (exAllocation (Some 2000) [exFinalizer]))) =
     [EvGet, EvProcessDelete (exAllocation (Some 2000) [exFinalizer]),
      EvStatusPatch zeroAllocationStatus] @ EvPatch [] # [] \<and>
   exFinalizer \<notin> set [] \<and>
   client_Get exEnv (exWorld (exAllocation (Some 2000) [exFinalizer])) =
     Inr (exAllocation (Some 2000) [exFinalizer]) \<and>
   \<not> IsZero (DeletionTimestamp (meta (exAllocation (Some 2000) [exFinalizer]))) \<and>
   store (exWorld (exAllocation (Some 2000) [exFinalizer])) =
     Some (exAllocation (Some 2000) [exFinalizer]) \<and>
   \<not> list_ex isPatch
       [EvGet :: (NodeAllocationRequestSpec, NodeAllocationRequestStatus) event] \<and>
   list_ex isProcessDelete
     [EvGet, EvProcessDelete (exAllocation (Some 2000) [exFinalizer]),
      EvStatusPatch zeroAllocationStatus] \<and>
   EvProcessDelete (exAllocation (Some 2000) [exFinalizer])
     \<in> set (events (AllocationReconciler_Reconcile exFinalizer exEnv
                      (exWorld (exAllocation (Some 2000) [exFinalizer])))) \<and>
   events (ReleaseReconciler_Reconcile exFinalizer exEnv
             (exWorld (exRelease (Some 2000) [exFinalizer]))) =
     [EvGet] @ EvProcessDelete (exRelease (Some 2000) [exFinalizer])
       # [EvStatusPatch \<lparr>rConditions = []\<rparr>, EvPatch []] \<and>
   events (ReleaseReconciler_Reconcile exFinalizer exEnv
             (exWorld (exRelease (Some 2000) [exFinalizer]))) =
     [EvGet, EvProcessDelete (exRelease (Some 2000) [exFinalizer]),
      EvStatusPatch \<lparr>rConditions = []\<rparr>] @ EvPatch [] # [] \<and>
   client_Get exEnv (exWorld (exRelease (Some 2000) [exFinalizer])) =
     Inr (exRelease (Some 2000) [exFinalizer]) \<and>
   \<not> IsZero (DeletionTimestamp (meta (exRelease (Some 2000) [exFinalizer]))) \<and>
   store (exWorld (exRelease (Some 2000) [exFinalizer])) =
     Some (exRelease (Some 2000) [exFinalizer]) \<and>
   \<not> list_ex isPatch
       [EvGet :: (NodeReleaseRequestSpec, NodeReleaseRequestStatus) event] \<and>
   list_ex isProcessDelete
     [EvGet, EvProcessDelete (exRelease (Some 2000) [exFinalizer]),
      EvStatusPatch \<lparr>rConditions = []\<rparr>] \<and>
   EvProcessDelete (exRelease (Some 2000) [exFinalizer])
     \<in> set (events (ReleaseReconciler_Reconcile exFinalizer exEnv
                      (exWorld (exRelease (Some 2000) [exFinalizer]))))"
proof -
  let ?a = "exAllocation (Some 2000) [exFinalizer]"
  let ?r = "exRelease (Some 2000) [exFinalizer]"
  have a1: "events (AllocationReconciler_Reconcile exFinalizer exEnv (exWorld ?a)) =
      [EvGet] @ EvProcessDelete ?a # [EvStatusPatch zeroAllocationStatus, EvPatch []]"
    by (simp add: exAllocation_deleting_events)
  have a2: "events (AllocationReconciler_Reconcile exFinalizer exEnv (exWorld ?a)) =
      [EvGet, EvProcessDelete ?a, EvStatusPatch zeroAllocationStatus] @ EvPatch [] # []"
    by (simp add: exAllocation_deleting_events)
  have a3: "client_Get exEnv (exWorld ?a) = Inr ?a \<and> \<not> IsZero (DeletionTimestamp (meta ?a))"
    by (simp add: client_Get_def IsZero_def example_defs)
  have r1: "events (ReleaseReconciler_Reconcile exFinalizer exEnv (exWorld ?r)) =
      [EvGet] @ EvProcessDelete ?r # [EvStatusPatch \<lparr>rConditions = []\<rparr>, EvPatch []]"
    by (simp add: exRelease_deleting_events)
  have r2: "events (ReleaseReconciler_Reconcile exFinalizer exEnv (exWorld ?r)) =
      [EvGet, EvProcessDelete ?r, EvStatusPatch \<lparr>rConditions = []\<rparr>] @ EvPatch [] # []"
    by (simp add: exRelease_deleting_events)
  have r3: "client_Get exEnv (exWorld ?r) = Inr ?r \<and> \<not> IsZero (DeletionTimestamp (meta ?r))"
    by (simp add: client_Get_def IsZero_def example_defs)
  have n: "exFinalizer \<notin> set []" by simp
  note t = cleanup_before_finalizer_removal [where fin = exFinalizer and e = exEnv
      and w = "exWorld ?a" and pre = "[EvGet]" and ob = ?a
      and post = "[EvStatusPatch zeroAllocationStatus, EvPatch []]"
      and ?pre1.0 = "[EvGet, EvProcessDelete ?a, EvStatusPatch zeroAllocationStatus]"
      and fs = "[]" and ?post1.0 = "[]" and ?ob2.0 = ?a
      and e' = exEnv and w' = "exWorld ?r" and pre' = "[EvGet]" and ob' = ?r
      and post' = "[EvStatusPatch \<lparr>rConditions = []\<rparr>, EvPatch []]"
      and pre1' = "[EvGet, EvProcessDelete ?r, EvStatusPatch \<lparr>rConditions = []\<rparr>]"
      and fs' = "[]" and post1' = "[]" and ob2' = ?r]
  from t a1 a2 a3 r1 r2 r3 n show ?thesis by blast
qed

text \<open>
  C2 as stated fails: an object that is being deleted and carries only another
  controller's finalizer gets the cleanup call although it does not carry the token.
\<close>

theorem cleanup_without_finalizer_counterexample:
  "EvProcessDelete (exAllocation (Some 2000) [''other''])
     \<in> set (events (AllocationReconciler_Reconcile exFinalizer exEnv
                      (exWorld (exAllocation (Some 2000) [''other''])))) \<and>
   \<not> ContainsFinalizer (exAllocation (Some 2000) [''other'']) exFinalizer"
  by (simp add: engine_defs example_defs)



text \<open>
  C7. One apply cycle on an allocation request with an empty status. When
  \<open>processUpdate\<close> returns no error, and given that the UUID generator hands out a
  non-empty string, the status carries that identifier as node identifier, a condition of
  type Fulfilled with status True, and the name of the request followed by \<open>-bmc\<close> as
  the name of the credentials; a secret of that name exists in the namespace of the request
  and holds the user name and the password.
\<close>

theorem allocation_apply_fulfils:
  assumes "status ob = zeroAllocationStatus"
    and "hookErr (AllocationReconciler_processUpdate e w ob) = None"
    and "newUUID e \<noteq> ''''"
  shows "NodeID (status (hookObject (AllocationReconciler_processUpdate e w ob))) = newUUID e \<and>
    NodeID (status (hookObject (AllocationReconciler_processUpdate e w ob))) \<noteq> '''' \<and>
    (\<exists>c \<in> set (aConditions (status (hookObject (AllocationReconciler_processUpdate e w ob)))).
       Type c = FulfilledCondition \<and> Status c = ConditionTrue) \<and>
    CredentialsName (bmc (status (hookObject (AllocationReconciler_processUpdate e w ob)))) =
      Name (meta ob) @ ''-bmc'' \<and>
    (\<exists>b. secrets (hookWorld (AllocationReconciler_processUpdate e w ob))
           (Namespace (meta ob), Name (meta ob) @ ''-bmc'') = Some b \<and>
         Data b ''username'' = Some ''myuser'' \<and> Data b ''password'' = Some ''mypass'')"
  using assms
  by (auto simp: AllocationReconciler_processUpdate_def CreateOrPatch_def SetOwnerReference_def
      zeroAllocationStatus_def hookErr_def hookObject_def hookWorld_def Let_def
      split: prod.splits option.splits sum.splits)

theorem allocation_apply_fulfils_witness:
  "status (exAllocation None [exFinalizer]) = zeroAllocationStatus \<and>
   hookErr (AllocationReconciler_processUpdate exEnv (exWorld (exAllocation None [exFinalizer]))
     (exAllocation None [exFinalizer])) = None \<and>
   newUUID exEnv \<noteq> '''' \<and>
   NodeID (status (hookObject (AllocationReconciler_processUpdate exEnv
     (exWorld (exAllocation None [exFinalizer])) (exAllocation None [exFinalizer])))) =
     ''c3f64cf1-40c0'' \<and>
   CredentialsName (bmc (status (hookObject (AllocationReconciler_processUpdate exEnv
     (exWorld (exAllocation None [exFinalizer])) (exAllocation None [exFinalizer]))))) =
     ''cu-113-bmc'' \<and>
   (\<exists>c \<in> set (aConditions (status (hookObject (AllocationReconciler_processUpdate exEnv
       (exWorld (exAllocation None [exFinalizer])) (exAllocation None [exFinalizer]))))).
      Type c = FulfilledCondition \<and> Status c = ConditionTrue) \<and>
   (\<exists>b. secrets (hookWorld (AllocationReconciler_processUpdate exEnv
       (exWorld (exAllocation None [exFinalizer])) (exAllocation None [exFinalizer])))
       (''europe'', ''cu-113-bmc'') = Some b \<and>
       Data b ''username'' = Some ''myuser'' \<and> Data b ''password'' = Some ''mypass'')"
proof -
  let ?a = "exAllocation None [exFinalizer]"
  have s: "status ?a = zeroAllocationStatus" by (simp add: example_defs)
  have h: "hookErr (AllocationReconciler_processUpdate exEnv (exWorld ?a) ?a) = None"
    by (simp add: engine_defs example_defs hookErr_def)
  have u: "newUUID exEnv \<noteq> ''''" by (simp add: exEnv_def)
  have n: "newUUID exEnv = ''c3f64cf1-40c0'' \<and> Namespace (meta ?a) = ''europe''
      \<and> Name (meta ?a) @ ''-bmc'' = ''cu-113-bmc''"
    by (simp add: example_defs)
  from allocation_apply_fulfils [OF s h u] s h u n show ?thesis by simp
qed

text \<open>
  C8. The node identifier is stable: \<open>processUpdate\<close> leaves a non-empty node
  identifier as it is, whether or not the rest of the call succeeds.
\<close>

theorem node_id_stable:
  "NodeID (status ob) \<noteq> '''' \<Longrightarrow>
   NodeID (status (hookObject (AllocationReconciler_processUpdate e w ob))) = NodeID (status ob)"
  by (auto simp: AllocationReconciler_processUpdate_def hookObject_def Let_def
      split: prod.splits option.splits)

theorem node_id_stable_witness:
  "NodeID (status exFulfilled) \<noteq> '''' \<and>
   NodeID (status (hookObject (AllocationReconciler_processUpdate exEnv (exWorld exFulfilled)
     exFulfilled))) = ''acme-c3f6''"
proof -
  have h: "NodeID (status exFulfilled) \<noteq> ''''" by (simp add: exFulfilled_def)
  from node_id_stable [OF h, of exEnv "exWorld exFulfilled"] h show ?thesis
    by (simp add: exFulfilled_def)
qed

text \<open>
  C9, as the code has it. When the apply hook returns an error, the pass returns that error
  and stops: the trace ends with what the hook did, no status patch is sent, and the world
  is the one the hook left. For the hook of the allocation reconciler that world is the
  one the pass started from, so nothing of the failure reaches the stored object.
\<close>

theorem apply_error_returned_unrecorded:
  assumes "client_Get e w = Inr ob" "IsZero (DeletionTimestamp (meta ob))"
    and "ContainsFinalizer ob fin"
  shows "(pU e w ob = (res, Some x, copy1, w1, evs) \<longrightarrow>
            Reconcile fin pU pD e w =
              \<lparr>result = res, err = Some x,
               events = [EvGet, EvProcessUpdate ob] @ evs, world = w1\<rparr>) \<and>
         (AllocationReconciler_processUpdate e w ob = (res', Some x', copy1', w1', evs') \<longrightarrow>
            AllocationReconciler_Reconcile fin e w =
              \<lparr>result = zeroResult, err = Some x',
               events = [EvGet, EvProcessUpdate ob,
                         EvCreateOrPatch (Namespace (meta ob)) (Name (meta ob) @ ''-bmc'')],
               world = w\<rparr>)"
proof (intro conjI impI)
  assume h: "pU e w ob = (res, Some x, copy1, w1, evs)"
  show "Reconcile fin pU pD e w =
      \<lparr>result = res, err = Some x, events = [EvGet, EvProcessUpdate ob] @ evs, world = w1\<rparr>"
    using Reconcile_active [where pU = pU, OF assms h] by simp
next
  assume h: "AllocationReconciler_processUpdate e w ob = (res', Some x', copy1', w1', evs')"
  have s: "res' = zeroResult \<and>
      evs' = [EvCreateOrPatch (Namespace (meta ob)) (Name (meta ob) @ ''-bmc'')]"
    using h by (rule Alloc_processUpdate_shape)
  have w: "w1' = w" using h by (rule Alloc_processUpdate_error_world)
  show "AllocationReconciler_Reconcile fin e w =
      \<lparr>result = zeroResult, err = Some x',
       events = [EvGet, EvProcessUpdate ob,
                 EvCreateOrPatch (Namespace (meta ob)) (Name (meta ob) @ ''-bmc'')],
       world = w\<rparr>"
    unfolding AllocationReconciler_Reconcile_def
    using Reconcile_active [where pU = AllocationReconciler_processUpdate, OF assms h] s w
    by simp
qed

theorem apply_error_returned_unrecorded_witness:
  "client_Get exEnvSecretsDown (exWorld (exAllocation None [exFinalizer])) =
     Inr (exAllocation None [exFinalizer]) \<and>
   IsZero (DeletionTimestamp (meta (exAllocation None [exFinalizer]))) \<and>
   ContainsFinalizer (exAllocation None [exFinalizer]) exFinalizer \<and>
   AllocationReconciler_processUpdate exEnvSecretsDown (exWorld (exAllocation None [exFinalizer]))
     (exAllocation None [exFinalizer]) =
   (zeroResult, Some Unavailable,
    (exAllocation None [exFinalizer])\<lparr>status := zeroAllocationStatus\<lparr>NodeID := ''c3f64cf1-40c0''\<rparr>\<rparr>,
    exWorld (exAllocation None [exFinalizer]), [EvCreateOrPatch ''europe'' ''cu-113-bmc'']) \<and>
   Reconcile exFinalizer AllocationReconciler_processUpdate AllocationReconciler_processDelete
     exEnvSecretsDown (exWorld (exAllocation None [exFinalizer])) =
     \<lparr>result = zeroResult, err = Some Unavailable,
      events = [EvGet, EvProcessUpdate (exAllocation None [exFinalizer])]
        @ [EvCreateOrPatch ''europe'' ''cu-113-bmc''],
      world = exWorld (exAllocation None [exFinalizer])\<rparr> \<and>
   AllocationReconciler_Reconcile exFinalizer exEnvSecretsDown
     (exWorld (exAllocation None [exFinalizer])) =
     \<lparr>result = zeroResult, err = Some Unavailable,
      events = [EvGet, EvProcessUpdate (exAllocation None [exFinalizer]),
                EvCreateOrPatch ''europe'' ''cu-113-bmc''],
      world = exWorld (exAllocation None [exFinalizer])\<rparr>"
proof -
  let ?a = "exAllocation None [exFinalizer]"
  have g: "client_Get exEnvSecretsDown (exWorld ?a) = Inr ?a"
    by (simp add: client_Get_def example_defs)
  have z: "IsZero (DeletionTimestamp (meta ?a))"
    by (simp add: example_defs)
  have c: "ContainsFinalizer ?a exFinalizer"
    by (simp add: ContainsFinalizer_def example_defs)
  have nm: "Namespace (meta ?a) = ''europe'' \<and> Name (meta ?a) @ ''-bmc'' = ''cu-113-bmc''"
    by (simp add: example_defs)
  note t = apply_error_returned_unrecorded [OF g z c,
      where pU = AllocationReconciler_processUpdate and pD = AllocationReconciler_processDelete
      and res = zeroResult and x = Unavailable and res' = zeroResult and x' = Unavailable
      and ?w1.0 = "exWorld ?a" and w1' = "exWorld ?a"
      and evs = "[EvCreateOrPatch ''europe'' ''cu-113-bmc'']"
      and evs' = "[EvCreateOrPatch ''europe'' ''cu-113-bmc'']"
      and ?copy1.0 = "?a\<lparr>status := zeroAllocationStatus\<lparr>NodeID := ''c3f64cf1-40c0''\<rparr>\<rparr>"
      and copy1' = "?a\<lparr>status := zeroAllocationStatus\<lparr>NodeID := ''c3f64cf1-40c0''\<rparr>\<rparr>"]
  from t g z c exAllocation_hook_down nm show ?thesis by simp
qed

text \<open>
  C9 as stated fails: with the secrets unavailable the allocation pass returns the error,
  sends no status patch, and the stored request still has no condition.
\<close>

theorem apply_error_no_condition_counterexample:
  "err (AllocationReconciler_Reconcile exFinalizer exEnvSecretsDown
          (exWorld (exAllocation None [exFinalizer]))) = Some Unavailable \<and>
   events (AllocationReconciler_Reconcile exFinalizer exEnvSecretsDown
             (exWorld (exAllocation None [exFinalizer]))) =
     [EvGet, EvProcessUpdate (exAllocation None [exFinalizer]),
      EvCreateOrPatch ''europe'' ''cu-113-bmc''] \<and>
   store (world (AllocationReconciler_Reconcile exFinalizer exEnvSecretsDown
                   (exWorld (exAllocation None [exFinalizer])))) =
     Some (exAllocation None [exFinalizer]) \<and>
   aConditions (status (exAllocation None [exFinalizer])) = []"
  by (simp add: engine_defs example_defs)






end
